theory Spec2Isabelle
  imports Complex_Main "HOL-Library.Multiset"
begin

section \<open>JavaScript values\<close>

text \<open>
  The handlers test request fields with \<^verbatim>\<open>!x\<close> and \<^verbatim>\<open>a || b\<close>, so the fields of a
  request body and the document fields copied from them are JavaScript values with their
  truthiness. A number is falsy when it is zero or NaN, a string when it is empty.
\<close>

datatype js_value = JUndefined | JNull | JBool bool | JNum real | JNaN | JStr string

fun truthy :: "js_value \<Rightarrow> bool" where
  "truthy JUndefined = False"
| "truthy JNull = False"
| "truthy (JBool b) = b"
| "truthy (JNum x) = (x \<noteq> 0)"
| "truthy JNaN = False"
| "truthy (JStr s) = (s \<noteq> [])"

text \<open>\<^verbatim>\<open>a || b\<close>\<close>

definition js_or :: "js_value \<Rightarrow> js_value \<Rightarrow> js_value" where
  "js_or a b = (if truthy a then a else b)"

text \<open>
  A template literal converts its holes to strings. The conversion of a number is the
  runtime's and is taken as a parameter.
\<close>

fun js_ToString :: "(real \<Rightarrow> string) \<Rightarrow> js_value \<Rightarrow> string" where
  "js_ToString f JUndefined = ''undefined''"
| "js_ToString f JNull = ''null''"
| "js_ToString f (JBool b) = (if b then ''true'' else ''false'')"
| "js_ToString f (JNum x) = f x"
| "js_ToString f JNaN = ''NaN''"
| "js_ToString f (JStr s) = s"

text \<open>
  \<^verbatim>\<open>[...new Set(xs)]\<close>: the distinct elements in the order of their first occurrence.
\<close>

definition js_Set :: "'a list \<Rightarrow> 'a list" where
  "js_Set xs = fold (\<lambda>x acc. if x \<in> set acc then acc else acc @ [x]) xs []"

text \<open>
  \<^verbatim>\<open>new Map(pairs)\<close> with \<^verbatim>\<open>get\<close>: a later pair overwrites an earlier one with
  the same key.
\<close>

definition js_Map :: "('k \<times> 'v) list \<Rightarrow> 'k \<Rightarrow> 'v option" where
  "js_Map kvs = map_of (rev kvs)"

section \<open>Errors and responses\<close>

text \<open>
  A handler either sends \<^verbatim>\<open>res.status(c).json(new ApiResponse(c, data, message))\<close> or
  throws. What it throws is an \<^verbatim>\<open>ApiError\<close> with its status code and message, or the
  error with which an awaited collaborator rejected.
\<close>

datatype js_error = ApiError nat string | Rejected string

datatype 'a ApiResponse = ApiResponse nat 'a string

datatype 'a outcome = Sent nat "'a ApiResponse" | Threw js_error

section \<open>Documents and the store\<close>

text \<open>
  The Mongoose schemas are not part of the sources at hand. The fields are those the
  handlers read and write; a field copied from a request body holds the value as it was
  passed, and \<open>createdAt\<close> is the creation timestamp in milliseconds.
\<close>

record report =
  r_reportId :: string
  r_userId :: string
  r_categoryId :: js_value
  r_title :: js_value
  r_description :: js_value
  r_photo_url :: string
  r_voice_recording_url :: "string option"
  r_location_lat :: js_value
  r_location_lng :: js_value
  r_status :: js_value
  r_createdAt :: int

record reportHistory =
  h_reportId :: string
  h_previousStatus :: "string option"
  h_newStatus :: string
  h_changedByUserId :: string
  h_remarks :: string
  h_createdAt :: int

record notification =
  n_notificationId :: string
  n_userId :: string
  n_message :: string
  n_type :: string
  n_reportId :: js_value
  n_status :: string
  n_createdAt :: int

record category =
  c_categoryId :: string
  c_name :: string
  c_description :: string

record user =
  u_userId :: string
  u_username :: string
  u_name :: string
  u_email :: string

text \<open>
  Each collection is the list of its documents in insertion order. \<open>analytics_runs\<close>
  counts the recomputations of the analytics aggregate.
\<close>

record store =
  reports :: "report list"
  histories :: "reportHistory list"
  notifications :: "notification list"
  categories :: "category list"
  users :: "user list"
  analytics_runs :: nat

text \<open>\<^verbatim>\<open>.sort({ createdAt: -1 })\<close>\<close>

definition sort_createdAt_desc :: "('a \<Rightarrow> int) \<Rightarrow> 'a list \<Rightarrow> 'a list" where
  "sort_createdAt_desc createdAt xs = sort_key (\<lambda>x. - createdAt x) xs"

text \<open>The projections of \<^verbatim>\<open>.select(...)\<close>.\<close>

record user_selected =
  us_username :: string
  us_name :: string
  us_userId :: string

definition select_user :: "user \<Rightarrow> user_selected" where
  "select_user u = \<lparr>us_username = u_username u, us_name = u_name u, us_userId = u_userId u\<rparr>"

record report_selected =
  rs_reportId :: string
  rs_title :: js_value
  rs_status :: js_value

definition select_report :: "report \<Rightarrow> report_selected" where
  "select_report r = \<lparr>rs_reportId = r_reportId r, rs_title = r_title r, rs_status = r_status r\<rparr>"

text \<open>The queries of the handlers.\<close>

definition Report_find_userId :: "store \<Rightarrow> string \<Rightarrow> report list" where
  "Report_find_userId s uid = filter (\<lambda>r. r_userId r = uid) (reports s)"

definition Report_find_reportId_in :: "store \<Rightarrow> js_value list \<Rightarrow> report list" where
  "Report_find_reportId_in s ids = filter (\<lambda>r. JStr (r_reportId r) \<in> set ids) (reports s)"

definition Report_findOne :: "store \<Rightarrow> string \<Rightarrow> report option" where
  "Report_findOne s rid = find (\<lambda>r. r_reportId r = rid) (reports s)"

definition Category_find_in :: "store \<Rightarrow> js_value list \<Rightarrow> category list" where
  "Category_find_in s ids = filter (\<lambda>c. JStr (c_categoryId c) \<in> set ids) (categories s)"

definition Category_findOne :: "store \<Rightarrow> js_value \<Rightarrow> category option" where
  "Category_findOne s cid = find (\<lambda>c. JStr (c_categoryId c) = cid) (categories s)"

definition User_find_in :: "store \<Rightarrow> string list \<Rightarrow> user list" where
  "User_find_in s ids = filter (\<lambda>u. u_userId u \<in> set ids) (users s)"

definition User_findOne :: "store \<Rightarrow> string \<Rightarrow> user option" where
  "User_findOne s uid = find (\<lambda>u. u_userId u = uid) (users s)"

definition Notification_find_userId :: "store \<Rightarrow> string \<Rightarrow> notification list" where
  "Notification_find_userId s uid = filter (\<lambda>n. n_userId n = uid) (notifications s)"

section \<open>Report listing\<close>

text \<open>
  A reference field of a listed document holds the resolved object when the manual join
  found one, and the raw id otherwise.
\<close>

datatype ('k, 'o) populated = Raw 'k | Populated 'o

text \<open>
  \<^verbatim>\<open>{ ...report, userId: U, categoryId: C }\<close>: the report with its two reference
  fields overridden.
\<close>

record 'u populated_report =
  pr_report :: report
  pr_userId :: 'u
  pr_categoryId :: "(js_value, category) populated"

definition getMyReports :: "store \<Rightarrow> user \<Rightarrow> user populated_report list outcome" where
  "getMyReports s req_user =
    (let loggedInUserUUID = u_userId req_user;
         myReports = sort_createdAt_desc r_createdAt (Report_find_userId s loggedInUserUUID)
     in if myReports = [] then
          Sent 200 (ApiResponse 200 [] ''User has not created any reports yet.'')
        else
          let categoryUUIDs = js_Set (filter truthy (map r_categoryId myReports));
              categories = Category_find_in s categoryUUIDs;
              categoryMap = js_Map (map (\<lambda>category. (JStr (c_categoryId category), category)) categories);
              populatedReports = map (\<lambda>report.
                \<lparr>pr_report = report,
                 pr_userId = req_user,
                 pr_categoryId = (case categoryMap (r_categoryId report) of
                     Some category \<Rightarrow> Populated category
                   | None \<Rightarrow> Raw (r_categoryId report))\<rparr>) myReports
          in Sent 200 (ApiResponse 200 populatedReports ''User reports fetched successfully.''))"

definition getAllReports ::
  "store \<Rightarrow> (string, user_selected) populated populated_report list outcome" where
  "getAllReports s =
    (let reports = sort_createdAt_desc r_createdAt (reports s)
     in if reports = [] then Threw (ApiError 404 ''No reports found.'')
        else
          let userUUIDs = js_Set (filter (\<lambda>id. id \<noteq> []) (map r_userId reports));
              categoryUUIDs = js_Set (filter truthy (map r_categoryId reports));
              users = map select_user (User_find_in s userUUIDs);
              categories = Category_find_in s categoryUUIDs;
              userMap = js_Map (map (\<lambda>user. (us_userId user, user)) users);
              categoryMap = js_Map (map (\<lambda>category. (JStr (c_categoryId category), category)) categories);
              populatedReports = map (\<lambda>report.
                \<lparr>pr_report = report,
                 pr_userId = (case userMap (r_userId report) of
                     Some user \<Rightarrow> Populated user
                   | None \<Rightarrow> Raw (r_userId report)),
                 pr_categoryId = (case categoryMap (r_categoryId report) of
                     Some category \<Rightarrow> Populated category
                   | None \<Rightarrow> Raw (r_categoryId report))\<rparr>) reports
          in Sent 200 (ApiResponse 200 populatedReports ''All reports fetched successfully.''))"

section \<open>The collaborators outside the handlers\<close>

text \<open>
  What a request handler gets from outside the store: the clock and the generator of
  document ids used by the schemas, the upload service, which resolves to \<^verbatim>\<open>null\<close>
  or to a response whose \<^verbatim>\<open>secure_url\<close> is kept, the error, if any, with which
  \<^verbatim>\<open>Notification.create\<close> rejects, and the runtime's conversion of numbers to
  strings.
\<close>

record env =
  now :: int
  new_id :: string
  uploadOnCloudinary :: "string \<Rightarrow> string option"
  Notification_create_rejects :: "js_error option"
  number_ToString :: "real \<Rightarrow> string"

text \<open>
  Modelled from the spec: \<^verbatim>\<open>generateAnalytics\<close> of \<^verbatim>\<open>utils/analytics.service.js\<close>,
  which is not among the sources. It recomputes an aggregate view of the report data and
  leaves the collections of the store as they are.
\<close>

definition generateAnalytics :: "store \<Rightarrow> store" where
  "generateAnalytics s = s\<lparr>analytics_runs := Suc (analytics_runs s)\<rparr>"

text \<open>
  Modelled from the spec: the defaults of the Report schema of \<^verbatim>\<open>models/report.model.js\<close>,
  which is not among the sources: an application-generated id, the status pending and
  the creation timestamp. \<^verbatim>\<open>Report.create\<close> appends the document and returns it.
\<close>

record report_input =
  ri_userId :: string
  ri_categoryId :: js_value
  ri_title :: js_value
  ri_description :: js_value
  ri_photo_url :: string
  ri_voice_recording_url :: "string option"
  ri_location_lat :: js_value
  ri_location_lng :: js_value

definition Report_create :: "env \<Rightarrow> report_input \<Rightarrow> store \<Rightarrow> report \<times> store" where
  "Report_create e d s =
    (let newReport =
       \<lparr>r_reportId = new_id e,
        r_userId = ri_userId d,
        r_categoryId = ri_categoryId d,
        r_title = ri_title d,
        r_description = ri_description d,
        r_photo_url = ri_photo_url d,
        r_voice_recording_url = ri_voice_recording_url d,
        r_location_lat = ri_location_lat d,
        r_location_lng = ri_location_lng d,
        r_status = JStr ''pending'',
        r_createdAt = now e\<rparr>
     in (newReport, s\<lparr>reports := reports s @ [newReport]\<rparr>))"

text \<open>
  \<^verbatim>\<open>ReportHistory.create\<close> appends the entry it is given, stamped with the time.
\<close>

definition ReportHistory_create ::
  "env \<Rightarrow> string \<Rightarrow> string option \<Rightarrow> string \<Rightarrow> string \<Rightarrow> string \<Rightarrow> store \<Rightarrow> store" where
  "ReportHistory_create e reportId previousStatus newStatus changedByUserId remarks s =
    s\<lparr>histories := histories s @
      [\<lparr>h_reportId = reportId,
        h_previousStatus = previousStatus,
        h_newStatus = newStatus,
        h_changedByUserId = changedByUserId,
        h_remarks = remarks,
        h_createdAt = now e\<rparr>]\<rparr>"

text \<open>
  \<^verbatim>\<open>report.save()\<close> writes the document back in the place where \<^verbatim>\<open>findOne\<close>
  found it: the first one with its id.
\<close>

fun replace_first :: "('a \<Rightarrow> bool) \<Rightarrow> 'a \<Rightarrow> 'a list \<Rightarrow> 'a list" where
  "replace_first P y [] = []"
| "replace_first P y (x # xs) = (if P x then y # xs else x # replace_first P y xs)"

definition Report_save :: "report \<Rightarrow> store \<Rightarrow> store" where
  "Report_save r s =
    s\<lparr>reports := replace_first (\<lambda>x. r_reportId x = r_reportId r) r (reports s)\<rparr>"

text \<open>
  Modelled from the spec: the defaults of the Notification schema of
  \<^verbatim>\<open>models/notifications.model.js\<close>, which is not among the sources: an
  application-generated id, the status unread and the creation timestamp.
  \<^verbatim>\<open>Notification.create\<close> appends the document, or rejects and writes nothing.
\<close>

definition Notification_create ::
  "env \<Rightarrow> string \<Rightarrow> string \<Rightarrow> string \<Rightarrow> js_value \<Rightarrow> store \<Rightarrow> js_error + store" where
  "Notification_create e userId message type reportId s =
    (case Notification_create_rejects e of
       Some err \<Rightarrow> Inl err
     | None \<Rightarrow> Inr (s\<lparr>notifications := notifications s @
         [\<lparr>n_notificationId = new_id e,
           n_userId = userId,
           n_message = message,
           n_type = type,
           n_reportId = reportId,
           n_status = ''unread'',
           n_createdAt = now e\<rparr>]\<rparr>))"

section \<open>Report submission\<close>

text \<open>
  \<^verbatim>\<open>req.files\<close> may be absent, and so may each of its two arrays of uploaded files; of
  a file only the path is read.
\<close>

record uploaded_file =
  path :: string

record req_files =
  photo :: "uploaded_file list option"
  voiceRecording :: "uploaded_file list option"

record submit_body =
  title :: js_value
  description :: js_value
  categoryId :: js_value
  locationLat :: js_value
  locationLng :: js_value

record submit_req =
  sb_body :: submit_body
  sb_user :: user
  sb_files :: "req_files option"

text \<open>\<^verbatim>\<open>req.files.voiceRecording?.[0]?.path\<close>\<close>

definition voiceRecordingLocalPath :: "req_files \<Rightarrow> string option" where
  "voiceRecordingLocalPath fs =
    (case voiceRecording fs of
       None \<Rightarrow> None
     | Some [] \<Rightarrow> None
     | Some (f # _) \<Rightarrow> Some (path f))"

definition submitReport :: "env \<Rightarrow> store \<Rightarrow> submit_req \<Rightarrow> report outcome \<times> store" where
  "submitReport e s req =
    (let b = sb_body req; userId = u_userId (sb_user req) in
     if \<not> truthy (title b) \<or> \<not> truthy (description b) \<or> \<not> truthy (categoryId b)
        \<or> \<not> truthy (locationLat b) \<or> \<not> truthy (locationLng b) then
       (Threw (ApiError 400 ''All required fields (title, description, categoryId, locationLat, locationLng) are needed for the report.''), s)
     else case Category_findOne s (categoryId b) of
       None \<Rightarrow> (Threw (ApiError 404 ''The specified categoryId does not exist.''), s)
     | Some categoryExists \<Rightarrow>
       (case (case sb_files req of None \<Rightarrow> None
                | Some fs \<Rightarrow> (case photo fs of None \<Rightarrow> None
                    | Some [] \<Rightarrow> None
                    | Some (f # _) \<Rightarrow> Some (fs, f))) of
          None \<Rightarrow> (Threw (ApiError 400 ''A photo is required for the report.''), s)
        | Some (fs, photo0) \<Rightarrow>
          (case uploadOnCloudinary e (path photo0) of
             None \<Rightarrow> (Threw (ApiError 500 ''Failed to upload photo to cloud service.''), s)
           | Some photoUrl \<Rightarrow>
             (case (case voiceRecordingLocalPath fs of
                      None \<Rightarrow> Inr None
                    | Some p \<Rightarrow>
                        if p = [] then Inr None
                        else (case uploadOnCloudinary e p of
                                None \<Rightarrow> Inl (ApiError 500 ''Failed to upload voice recording to cloud service.'')
                              | Some url \<Rightarrow> Inr (Some url))) of
                Inl err \<Rightarrow> (Threw err, s)
              | Inr voiceRecordingUrl \<Rightarrow>
                  let (newReport, s1) = Report_create e
                        \<lparr>ri_userId = userId,
                         ri_categoryId = categoryId b,
                         ri_title = title b,
                         ri_description = description b,
                         ri_photo_url = photoUrl,
                         ri_voice_recording_url = voiceRecordingUrl,
                         ri_location_lat = locationLat b,
                         ri_location_lng = locationLng b\<rparr> s;
                      s2 = ReportHistory_create e (r_reportId newReport) None ''pending'' userId
                             ''Report submitted by user.'' s1;
                      s3 = generateAnalytics s2
                  in (Sent 201 (ApiResponse 201 newReport ''Report submitted successfully.''), s3)))))"

section \<open>Report status update\<close>

record status_req =
  st_reportId :: string
  st_status :: js_value
  st_description :: js_value

definition status_message :: "env \<Rightarrow> string \<Rightarrow> js_value \<Rightarrow> string" where
  "status_message e reportId status =
    ''Your report #'' @ reportId @ '' status changed to '' @ [CHR 0x22]
      @ js_ToString (number_ToString e) status @ [CHR 0x22] @ ''.''"

definition updateReportStatus :: "env \<Rightarrow> store \<Rightarrow> status_req \<Rightarrow> report outcome \<times> store" where
  "updateReportStatus e s req =
    (if \<not> truthy (st_status req) then (Threw (ApiError 400 ''Status is required.''), s)
     else case Report_findOne s (st_reportId req) of
       None \<Rightarrow> (Threw (ApiError 404 ''Report not found.''), s)
     | Some found \<Rightarrow>
         let report = found\<lparr>r_status := st_status req,
                            r_description := js_or (st_description req) (r_description found)\<rparr>;
             s1 = Report_save report s
         in (case User_findOne s1 (r_userId report) of
               None \<Rightarrow>
                 (Sent 200 (ApiResponse 200 report
                    ''Report status updated successfully and notification sent.''),
                  generateAnalytics s1)
             | Some user \<Rightarrow>
                 (case Notification_create e (u_userId user)
                         (status_message e (r_reportId report) (st_status req))
                         ''status_update'' (JStr (r_reportId report)) s1 of
                    Inl err \<Rightarrow> (Threw err, s1)
                  | Inr s2 \<Rightarrow>
                      (Sent 200 (ApiResponse 200 report
                         ''Report status updated successfully and notification sent.''),
                       generateAnalytics s2))))"

section \<open>Notifications\<close>

text \<open>
  \<^verbatim>\<open>{ ...notification, reportId: R }\<close>: the notification with its report reference
  overridden.
\<close>

record populated_notification =
  pn_notification :: notification
  pn_reportId :: "(js_value, report_selected) populated"

definition getMyNotifications :: "store \<Rightarrow> user \<Rightarrow> populated_notification list outcome" where
  "getMyNotifications s req_user =
    (let userId = u_userId req_user;
         notifications = sort_createdAt_desc n_createdAt (Notification_find_userId s userId)
     in if notifications = [] then
          Sent 200 (ApiResponse 200 [] ''No notifications found for this user.'')
        else
          let reportUUIDs = js_Set (filter truthy (map n_reportId notifications));
              relatedReports = map select_report (Report_find_reportId_in s reportUUIDs);
              reportMap = js_Map (map (\<lambda>report. (JStr (rs_reportId report), report)) relatedReports);
              populatedNotifications = map (\<lambda>notification.
                \<lparr>pn_notification = notification,
                 pn_reportId = (case reportMap (n_reportId notification) of
                     Some report \<Rightarrow> Populated report
                   | None \<Rightarrow> Raw (n_reportId notification))\<rparr>) notifications
          in Sent 200 (ApiResponse 200 populatedNotifications ''Notifications fetched successfully.''))"

text \<open>
  \<^verbatim>\<open>Notification.findOneAndUpdate({ notificationId, userId }, { status: 'read' }, { new: true })\<close>:
  the first document that matches both fields gets the status read and is returned as
  updated; without a match nothing is written and the result is \<^verbatim>\<open>null\<close>.
\<close>

definition Notification_findOneAndUpdate ::
  "string \<Rightarrow> string \<Rightarrow> string \<Rightarrow> store \<Rightarrow> notification option \<times> store" where
  "Notification_findOneAndUpdate notificationId userId status s =
    (let matches = (\<lambda>n. n_notificationId n = notificationId \<and> n_userId n = userId) in
     case find matches (notifications s) of
       None \<Rightarrow> (None, s)
     | Some n \<Rightarrow>
         let n' = n\<lparr>n_status := status\<rparr>
         in (Some n', s\<lparr>notifications := replace_first matches n' (notifications s)\<rparr>))"

record mark_req =
  mr_notificationId :: string
  mr_user :: user

definition markNotificationAsRead :: "store \<Rightarrow> mark_req \<Rightarrow> notification outcome \<times> store" where
  "markNotificationAsRead s req =
    (case Notification_findOneAndUpdate (mr_notificationId req) (u_userId (mr_user req)) ''read'' s of
       (None, s') \<Rightarrow> (Threw (ApiError 404 ''Notification not found or user not authorized.''), s')
     | (Some notification, s') \<Rightarrow>
         (Sent 200 (ApiResponse 200 notification ''Notification marked as read.''), s'))"

section \<open>Scheduled notification dispatch\<close>

text \<open>
  The callback works on the state of the world outside it and on the console. A step
  either completes or throws, and leaves a new state either way.
\<close>

datatype console_line = Log string | Error string js_error

type_synonym 'w step = "'w \<times> console_line list \<Rightarrow> js_error option \<times> 'w \<times> console_line list"

definition console_log :: "string \<Rightarrow> 'w step" where
  "console_log msg = (\<lambda>(w, out). (None, w, out @ [Log msg]))"

definition console_error :: "string \<Rightarrow> js_error \<Rightarrow> 'w step" where
  "console_error msg err = (\<lambda>(w, out). (None, w, out @ [Error msg err]))"

text \<open>Two statements in sequence: an error thrown by the first skips the second.\<close>

definition seq :: "'w step \<Rightarrow> 'w step \<Rightarrow> 'w step" where
  "seq a b = (\<lambda>st. case a st of (None, st') \<Rightarrow> b st' | (Some err, st') \<Rightarrow> (Some err, st'))"

text \<open>\<^verbatim>\<open>try { body } catch (error) { handler }\<close>\<close>

definition try_catch :: "'w step \<Rightarrow> (js_error \<Rightarrow> 'w step) \<Rightarrow> 'w step" where
  "try_catch body handler =
    (\<lambda>st. case body st of (None, st') \<Rightarrow> (None, st') | (Some err, st') \<Rightarrow> handler err st')"

text \<open>
  \<^verbatim>\<open>sendPendingReportNotifications\<close> of \<^verbatim>\<open>utils/notification.service.js\<close> is not among
  the sources and is a parameter: from a state of the world it resolves or rejects, and
  leaves a state of the world.
\<close>

definition await_send :: "('w \<Rightarrow> js_error option \<times> 'w) \<Rightarrow> 'w step" where
  "await_send sendPendingReportNotifications =
    (\<lambda>(w, out). case sendPendingReportNotifications w of (r, w') \<Rightarrow> (r, w', out))"

definition scheduled_callback :: "('w \<Rightarrow> js_error option \<times> 'w) \<Rightarrow> 'w step" where
  "scheduled_callback sendPendingReportNotifications =
    seq (console_log ''Running pending report notification task...'')
      (try_catch
        (seq (await_send sendPendingReportNotifications)
             (console_log ''Notification task completed successfully.''))
        (\<lambda>error. console_error ''Error during notification task:'' error))"

text \<open>
  Modelled from the spec: the recurring timer of \<^verbatim>\<open>cron.schedule\<close>, which is the
  library's and not among the sources. It invokes the callback once per tick; a run whose
  error propagated out of the callback halts the runs after it.
\<close>

fun run_ticks :: "nat \<Rightarrow> 'w step \<Rightarrow> 'w step" where
  "run_ticks 0 callback st = (None, st)"
| "run_ticks (Suc n) callback st =
    (case callback st of
       (None, st') \<Rightarrow> run_ticks n callback st'
     | (Some err, st') \<Rightarrow> (Some err, st'))"

section \<open>Example data\<close>

text \<open>
  A small city: two users, one category, two reports of the first user and three
  notifications, and the requests used below to run the handlers.
\<close>

definition alice :: user where
  "alice = \<lparr>u_userId = ''u1'', u_username = ''alice'', u_name = ''Alice'', u_email = ''alice@example.org''\<rparr>"

definition bob :: user where
  "bob = \<lparr>u_userId = ''u2'', u_username = ''bob'', u_name = ''Bob'', u_email = ''bob@example.org''\<rparr>"

definition roads :: category where
  "roads = \<lparr>c_categoryId = ''cat-1'', c_name = ''Roads'', c_description = ''Roads and pavements''\<rparr>"

definition pothole :: report where
  "pothole =
    \<lparr>r_reportId = ''r1'', r_userId = ''u1'', r_categoryId = JStr ''cat-1'',
     r_title = JStr ''Pothole'', r_description = JStr ''Large pothole'',
     r_photo_url = ''https://cdn.example.org/p1.jpg'', r_voice_recording_url = None,
     r_location_lat = JNum 12.9, r_location_lng = JNum 77.6,
     r_status = JStr ''pending'', r_createdAt = 1000\<rparr>"

definition streetlight :: report where
  "streetlight =
    \<lparr>r_reportId = ''r2'', r_userId = ''u1'', r_categoryId = JStr ''cat-9'',
     r_title = JStr ''Streetlight'', r_description = JStr ''Lamp is out'',
     r_photo_url = ''https://cdn.example.org/p2.jpg'', r_voice_recording_url = None,
     r_location_lat = JNum 12.8, r_location_lng = JNum 77.5,
     r_status = JStr ''pending'', r_createdAt = 2000\<rparr>"

definition note_r1 :: notification where
  "note_r1 =
    \<lparr>n_notificationId = ''n1'', n_userId = ''u1'', n_message = ''Report r1 received'',
     n_type = ''status_update'', n_reportId = JStr ''r1'', n_status = ''unread'',
     n_createdAt = 1500\<rparr>"

definition note_gone :: notification where
  "note_gone =
    \<lparr>n_notificationId = ''n2'', n_userId = ''u1'', n_message = ''Report r9 received'',
     n_type = ''status_update'', n_reportId = JStr ''r9'', n_status = ''unread'',
     n_createdAt = 2500\<rparr>"

definition note_bob :: notification where
  "note_bob =
    \<lparr>n_notificationId = ''n3'', n_userId = ''u2'', n_message = ''Welcome'',
     n_type = ''info'', n_reportId = JUndefined, n_status = ''unread'',
     n_createdAt = 1800\<rparr>"

definition empty_store :: store where
  "empty_store = \<lparr>reports = [], histories = [], notifications = [], categories = [roads],
     users = [alice, bob], analytics_runs = 0\<rparr>"

definition city_store :: store where
  "city_store = \<lparr>reports = [pothole, streetlight], histories = [],
     notifications = [note_r1, note_gone, note_bob], categories = [roads],
     users = [alice, bob], analytics_runs = 0\<rparr>"

definition orphan_store :: store where
  "orphan_store = city_store\<lparr>users := [bob]\<rparr>"

definition env_ok :: env where
  "env_ok = \<lparr>now = 5000, new_id = ''id-7'',
     uploadOnCloudinary = (\<lambda>p. Some (''https://cdn.example.org/'' @ p)),
     Notification_create_rejects = None,
     number_ToString = (\<lambda>x. ''0'')\<rparr>"

definition env_rejecting :: env where
  "env_rejecting = env_ok\<lparr>Notification_create_rejects := Some (Rejected ''ValidationError'')\<rparr>"

definition resolve_r1 :: status_req where
  "resolve_r1 = \<lparr>st_reportId = ''r1'', st_status = JStr ''resolved'', st_description = JStr ''''\<rparr>"

definition reword_r1 :: status_req where
  "reword_r1 = \<lparr>st_reportId = ''r1'', st_status = JStr ''in-progress'',
     st_description = JStr ''Crew assigned''\<rparr>"

definition pothole_req :: submit_req where
  "pothole_req =
    \<lparr>sb_body = \<lparr>title = JStr ''Pothole'', description = JStr ''Large pothole'',
        categoryId = JStr ''cat-1'', locationLat = JNum 12.9, locationLng = JNum 77.6\<rparr>,
     sb_user = alice,
     sb_files = Some \<lparr>photo = Some [\<lparr>path = ''tmp/photo.jpg''\<rparr>],
        voiceRecording = Some [\<lparr>path = ''tmp/voice.ogg''\<rparr>]\<rparr>\<rparr>"

definition equator_req :: submit_req where
  "equator_req = pothole_req\<lparr>sb_body := (sb_body pothole_req)\<lparr>locationLat := JNum 0\<rparr>\<rparr>"

definition always_failing :: "nat \<Rightarrow> js_error option \<times> nat" where
  "always_failing w = (Some (Rejected ''SMTP down''), Suc w)"

section \<open>Facts about the JavaScript containers and the queries\<close>

lemma set_fold_js_Set:
  "set (fold (\<lambda>x acc. if x \<in> set acc then acc else acc @ [x]) xs acc) = set xs \<union> set acc"
  by (induction xs arbitrary: acc) auto

lemma set_js_Set: "set (js_Set xs) = set xs"
  by (simp add: js_Set_def set_fold_js_Set)

text \<open>A map built from keyed entries returns the last entry stored under the key.\<close>

lemma map_of_rev_keyed:
  "map_of (rev (map (\<lambda>x. (key x, val x)) xs)) k =
    (case filter (\<lambda>x. key x = k) xs of [] \<Rightarrow> None | y # ys \<Rightarrow> Some (val (last (y # ys))))"
proof (induction xs rule: rev_induct)
  case Nil
  then show ?case by simp
next
  case (snoc x xs)
  then show ?case
    by (cases "key x = k") (auto simp: map_add_def split: list.splits option.splits)
qed

lemma js_Map_keyed:
  "js_Map (map (\<lambda>x. (key x, val x)) xs) k =
    (if filter (\<lambda>x. key x = k) xs = [] then None
     else Some (val (last (filter (\<lambda>x. key x = k) xs))))"
  by (simp add: js_Map_def map_of_rev_keyed split: list.splits)

lemma sorted_sort_createdAt_desc:
  "sorted_wrt (\<lambda>a b. f b \<le> f a) (sort_createdAt_desc f xs)"
proof -
  have "sorted (map (\<lambda>x. - f x) (sort_key (\<lambda>x. - f x) xs))"
    by (rule sorted_sort_key)
  then show ?thesis
    by (simp add: sort_createdAt_desc_def sorted_map)
qed

lemma mset_sort_createdAt_desc: "mset (sort_createdAt_desc f xs) = mset xs"
  by (simp add: sort_createdAt_desc_def)

lemma sorted_wrt_pr_report:
  "sorted_wrt (\<lambda>a b. r_createdAt (pr_report b) \<le> r_createdAt (pr_report a)) xs
    \<longleftrightarrow> sorted_wrt (\<lambda>a b. r_createdAt b \<le> r_createdAt a) (map pr_report xs)"
  by (simp add: sorted_wrt_map)

lemma sorted_wrt_pn_notification:
  "sorted_wrt (\<lambda>a b. n_createdAt (pn_notification b) \<le> n_createdAt (pn_notification a)) xs
    \<longleftrightarrow> sorted_wrt (\<lambda>a b. n_createdAt b \<le> n_createdAt a) (map pn_notification xs)"
  by (simp add: sorted_wrt_map)

text \<open>Writing a document back touches the place of the first match and nothing else.\<close>

lemma replace_first_find:
  "find P xs = Some x \<Longrightarrow> \<exists>i<length xs. xs ! i = x \<and> replace_first P y xs = xs[i := y]"
proof (induction xs)
  case Nil
  then show ?case by simp
next
  case (Cons a xs)
  show ?case
  proof (cases "P a")
    case True
    with Cons.prems have "a = x" by simp
    with True show ?thesis by (intro exI [of _ 0]) simp
  next
    case False
    with Cons obtain i where "i < length xs" "xs ! i = x" "replace_first P y xs = xs[i := y]"
      by auto
    with False show ?thesis by (intro exI [of _ "Suc i"]) simp
  qed
qed

lemma find_replace_first:
  "find P xs = Some x \<Longrightarrow> P y \<Longrightarrow> find P (replace_first P y xs) = Some y"
  by (induction xs) (auto split: if_splits)

lemma Report_findOne_save:
  assumes "Report_findOne s rid = Some r" and "r_reportId r' = rid"
  shows "Report_findOne (Report_save r' s) rid = Some r'"
  using assms find_replace_first [of "\<lambda>x. r_reportId x = rid" "reports s" r r']
  by (simp add: Report_findOne_def Report_save_def)

lemma Report_findOne_reportId: "Report_findOne s rid = Some r \<Longrightarrow> r_reportId r = rid"
  by (auto simp: Report_findOne_def find_Some_iff)

lemma User_findOne_Report_save: "User_findOne (Report_save r s) uid = User_findOne s uid"
  by (simp add: User_findOne_def Report_save_def)

lemma reports_generateAnalytics: "reports (generateAnalytics s) = reports s"
  by (simp add: generateAnalytics_def)

section \<open>Report status update\<close>

text \<open>The update handler never writes to the history collection.\<close>

lemma histories_updateReportStatus:
  "histories (snd (updateReportStatus e s req)) = histories s"
  by (simp add: updateReportStatus_def Let_def Report_save_def Notification_create_def
      generateAnalytics_def split: option.splits)

text \<open>
  Claim C1. For every status update applied to an existing report, exactly one
  ReportHistory entry recording the transition is created by the update operation.

  The handler does not do so. It saves the new status and creates a notification for the
  owner, and it leaves the history collection as it is, on every request. Resolving
  report \<open>r1\<close> in the example city answers 200 with the status changed, adds one
  notification and adds no history entry, although the submission handler records the
  initial status of a report in the same collection.
\<close>

theorem updateReportStatus_writes_no_history:
  "fst (updateReportStatus env_ok city_store resolve_r1) =
      Sent 200 (ApiResponse 200 (pothole\<lparr>r_status := JStr ''resolved''\<rparr>)
        ''Report status updated successfully and notification sent.'')
   \<and> histories (snd (updateReportStatus env_ok city_store resolve_r1)) = histories city_store
   \<and> length (notifications (snd (updateReportStatus env_ok city_store resolve_r1)))
       = Suc (length (notifications city_store))"
  by (simp add: updateReportStatus_def Let_def resolve_r1_def city_store_def
      env_ok_def pothole_def streetlight_def alice_def bob_def Report_findOne_def Report_save_def
      User_findOne_def Notification_create_def js_or_def generateAnalytics_def)

text \<open>
  Claim C2. For every status update on an existing report with a status value supplied,
  the operation returns the updated report with HTTP 200 regardless of whether the
  subsequent notification creation succeeds or fails.

  As stated this fails: \<^verbatim>\<open>await Notification.create(...)\<close> is not guarded, so an error
  with which it rejects leaves the handler, after the status has been saved and before
  any response is sent. In the example city the rejection \<open>ValidationError\<close> is what the
  handler throws.
\<close>

theorem updateReportStatus_create_rejects_counterexample:
  "truthy (st_status resolve_r1)
   \<and> Report_findOne city_store (st_reportId resolve_r1) = Some pothole
   \<and> fst (updateReportStatus env_rejecting city_store resolve_r1) = Threw (Rejected ''ValidationError'')"
  by (simp add: updateReportStatus_def Let_def resolve_r1_def city_store_def env_rejecting_def
      env_ok_def pothole_def streetlight_def alice_def bob_def Report_findOne_def Report_save_def
      User_findOne_def Notification_create_def js_or_def)

text \<open>
  Claim C2, amended. For every status update on an existing report with a truthy status,
  the analytics recomputation resolving as modelled: when the owner of the report is not
  found, so that no notification is attempted, or when \<^verbatim>\<open>Notification.create\<close>
  resolves, the updated report is returned with 200, and the store holds the saved
  report, the new notification if the owner was found, and one more analytics run; when
  the owner is found and \<^verbatim>\<open>Notification.create\<close> rejects, the handler throws that
  error and sends no response, after the status has been saved: the store left behind is
  the one with the report saved, no notification added and no analytics run.
\<close>

theorem updateReportStatus_200_unless_create_rejects:
  assumes "truthy (st_status req)" and "Report_findOne s (st_reportId req) = Some r"
    and "report = r\<lparr>r_status := st_status req,
             r_description := js_or (st_description req) (r_description r)\<rparr>"
  shows "(User_findOne s (r_userId r) = None \<or> Notification_create_rejects e = None \<longrightarrow>
      fst (updateReportStatus e s req) =
        Sent 200 (ApiResponse 200 report
          ''Report status updated successfully and notification sent.''))
    \<and> (User_findOne s (r_userId r) = None \<longrightarrow>
      snd (updateReportStatus e s req) = generateAnalytics (Report_save report s))
    \<and> (\<forall>user. User_findOne s (r_userId r) = Some user \<and> Notification_create_rejects e = None \<longrightarrow>
      snd (updateReportStatus e s req) =
        generateAnalytics ((Report_save report s)\<lparr>notifications := notifications s @
          [\<lparr>n_notificationId = new_id e, n_userId = u_userId user,
            n_message = status_message e (r_reportId r) (st_status req),
            n_type = ''status_update'', n_reportId = JStr (r_reportId r),
            n_status = ''unread'', n_createdAt = now e\<rparr>]\<rparr>))
    \<and> (\<forall>err. User_findOne s (r_userId r) \<noteq> None \<and> Notification_create_rejects e = Some err \<longrightarrow>
      updateReportStatus e s req = (Threw err, Report_save report s)
      \<and> Report_findOne (Report_save report s) (st_reportId req) = Some report
      \<and> r_status report = st_status req
      \<and> notifications (Report_save report s) = notifications s
      \<and> analytics_runs (Report_save report s) = analytics_runs s)"
proof -
  have id: "r_reportId report = st_reportId req"
    using assms(2,3) by (simp add: Report_findOne_reportId)
  with assms(2) have saved: "Report_findOne (Report_save report s) (st_reportId req) = Some report"
    by (rule Report_findOne_save)
  have frame: "notifications (Report_save report s) = notifications s"
    "analytics_runs (Report_save report s) = analytics_runs s"
    by (simp_all add: Report_save_def)
  show ?thesis
    using assms saved frame
    by (auto simp: updateReportStatus_def Let_def User_findOne_Report_save Notification_create_def
        split: option.splits)
qed

theorem updateReportStatus_200_unless_create_rejects_witness:
  "truthy (st_status resolve_r1)
   \<and> Report_findOne city_store (st_reportId resolve_r1) = Some pothole
   \<and> Notification_create_rejects env_ok = None
   \<and> fst (updateReportStatus env_ok city_store resolve_r1) =
        Sent 200 (ApiResponse 200 (pothole\<lparr>r_status := JStr ''resolved''\<rparr>)
          ''Report status updated successfully and notification sent.'')
   \<and> length (notifications (snd (updateReportStatus env_ok city_store resolve_r1))) = 4
   \<and> User_findOne city_store (r_userId pothole) \<noteq> None
   \<and> Notification_create_rejects env_rejecting = Some (Rejected ''ValidationError'')
   \<and> updateReportStatus env_rejecting city_store resolve_r1 =
        (Threw (Rejected ''ValidationError''),
         city_store\<lparr>reports := [pothole\<lparr>r_status := JStr ''resolved''\<rparr>, streetlight]\<rparr>)
   \<and> Report_findOne orphan_store (st_reportId resolve_r1) = Some pothole
   \<and> User_findOne orphan_store (r_userId pothole) = None
   \<and> updateReportStatus env_rejecting orphan_store resolve_r1 =
        (Sent 200 (ApiResponse 200 (pothole\<lparr>r_status := JStr ''resolved''\<rparr>)
          ''Report status updated successfully and notification sent.''),
         orphan_store\<lparr>reports := [pothole\<lparr>r_status := JStr ''resolved''\<rparr>, streetlight],
           analytics_runs := 1\<rparr>)"
proof -
  let ?report = "pothole\<lparr>r_status := JStr ''resolved''\<rparr>"
  have a: "truthy (st_status resolve_r1)"
    by (simp add: resolve_r1_def)
  have b: "Report_findOne city_store (st_reportId resolve_r1) = Some pothole"
    "Report_findOne orphan_store (st_reportId resolve_r1) = Some pothole"
    by (simp_all add: resolve_r1_def orphan_store_def city_store_def Report_findOne_def pothole_def)
  have c: "User_findOne city_store (r_userId pothole) = Some alice"
    "User_findOne orphan_store (r_userId pothole) = None"
    by (simp_all add: orphan_store_def city_store_def User_findOne_def pothole_def alice_def bob_def)
  have d: "Notification_create_rejects env_ok = None"
    "Notification_create_rejects env_rejecting = Some (Rejected ''ValidationError'')"
    by (simp_all add: env_ok_def env_rejecting_def)
  have r: "?report = pothole\<lparr>r_status := st_status resolve_r1,
      r_description := js_or (st_description resolve_r1) (r_description pothole)\<rparr>"
    by (simp add: js_or_def resolve_r1_def pothole_def)
  have saved: "Report_save ?report city_store = city_store\<lparr>reports := [?report, streetlight]\<rparr>"
    "Report_save ?report orphan_store = orphan_store\<lparr>reports := [?report, streetlight]\<rparr>"
    by (simp_all add: Report_save_def orphan_store_def city_store_def pothole_def streetlight_def)
  have runs: "analytics_runs orphan_store = 0" and len: "length (notifications city_store) = 3"
    by (simp_all add: orphan_store_def city_store_def)
  have resolved: "fst (updateReportStatus env_ok city_store resolve_r1) =
        Sent 200 (ApiResponse 200 ?report
          ''Report status updated successfully and notification sent.'')"
    "length (notifications (snd (updateReportStatus env_ok city_store resolve_r1))) = 4"
    using updateReportStatus_200_unless_create_rejects [OF a b(1) r, of env_ok] c(1) d(1)
    by (simp_all add: generateAnalytics_def saved len)
  have rejected: "updateReportStatus env_rejecting city_store resolve_r1 =
        (Threw (Rejected ''ValidationError''), city_store\<lparr>reports := [?report, streetlight]\<rparr>)"
    using updateReportStatus_200_unless_create_rejects [OF a b(1) r, of env_rejecting] c(1) d(2)
    by (simp add: saved)
  have orphan: "updateReportStatus env_rejecting orphan_store resolve_r1 =
        (Sent 200 (ApiResponse 200 ?report
          ''Report status updated successfully and notification sent.''),
         orphan_store\<lparr>reports := [?report, streetlight], analytics_runs := 1\<rparr>)"
    using updateReportStatus_200_unless_create_rejects [OF a b(2) r, of env_rejecting] c(2)
    by (simp add: prod_eq_iff generateAnalytics_def saved runs)
  from a b c d resolved rejected orphan show ?thesis
    by simp
qed

lemma reports_updateReportStatus:
  assumes "truthy (st_status req)" and "Report_findOne s (st_reportId req) = Some r"
  shows "reports (snd (updateReportStatus e s req)) =
    reports (Report_save (r\<lparr>r_status := st_status req,
       r_description := js_or (st_description req) (r_description r)\<rparr>) s)"
  using assms
  by (simp add: updateReportStatus_def Let_def Notification_create_def reports_generateAnalytics
      split: option.splits)

text \<open>
  Claim C10. For every status update whose request body carries an empty-string or
  otherwise falsy description, the stored description of the report is left unchanged;
  only a truthy description overwrites it.

  After the update the report found under the id has the requested status, its former
  description when the description of the request is falsy, and the description of the
  request when that is truthy. This holds whether or not the later notification succeeds.
\<close>

theorem updateReportStatus_description_kept_unless_truthy:
  assumes "truthy (st_status req)" and "Report_findOne s (st_reportId req) = Some r"
  shows "\<exists>r'. Report_findOne (snd (updateReportStatus e s req)) (st_reportId req) = Some r'
    \<and> r_status r' = st_status req
    \<and> (\<not> truthy (st_description req) \<longrightarrow> r_description r' = r_description r)
    \<and> (truthy (st_description req) \<longrightarrow> r_description r' = st_description req)"
proof -
  let ?r' = "r\<lparr>r_status := st_status req,
       r_description := js_or (st_description req) (r_description r)\<rparr>"
  have "r_reportId ?r' = st_reportId req"
    using assms(2) by (simp add: Report_findOne_reportId)
  with assms(2) have "Report_findOne (Report_save ?r' s) (st_reportId req) = Some ?r'"
    by (rule Report_findOne_save)
  with reports_updateReportStatus [OF assms, of e]
  have "Report_findOne (snd (updateReportStatus e s req)) (st_reportId req) = Some ?r'"
    by (simp add: Report_findOne_def)
  then show ?thesis
    by (simp add: js_or_def)
qed

theorem updateReportStatus_description_kept_unless_truthy_witness:
  "truthy (st_status resolve_r1)
   \<and> Report_findOne city_store (st_reportId resolve_r1) = Some pothole
   \<and> \<not> truthy (st_description resolve_r1)
   \<and> (\<exists>r'. Report_findOne (snd (updateReportStatus env_ok city_store resolve_r1)) ''r1'' = Some r'
        \<and> r_status r' = JStr ''resolved'' \<and> r_description r' = JStr ''Large pothole'')
   \<and> truthy (st_status reword_r1)
   \<and> Report_findOne city_store (st_reportId reword_r1) = Some pothole
   \<and> truthy (st_description reword_r1)
   \<and> (\<exists>r'. Report_findOne (snd (updateReportStatus env_ok city_store reword_r1)) ''r1'' = Some r'
        \<and> r_status r' = JStr ''in-progress'' \<and> r_description r' = JStr ''Crew assigned'')"
proof -
  have a: "truthy (st_status resolve_r1)" "truthy (st_status reword_r1)"
    by (simp_all add: resolve_r1_def reword_r1_def)
  have b: "Report_findOne city_store (st_reportId resolve_r1) = Some pothole"
    "Report_findOne city_store (st_reportId reword_r1) = Some pothole"
    by (simp_all add: resolve_r1_def reword_r1_def city_store_def Report_findOne_def pothole_def)
  from updateReportStatus_description_kept_unless_truthy [OF a(1) b(1), of env_ok]
    updateReportStatus_description_kept_unless_truthy [OF a(2) b(2), of env_ok]
  show ?thesis
    using a b by (auto simp: resolve_r1_def reword_r1_def pothole_def)
qed

section \<open>Report listing\<close>

text \<open>
  Claim C3. Listing the caller's own reports when the caller owns none returns 200 with
  an empty list, never an error, whereas the admin listing of all reports returns a 404
  not-found error when the store holds no report.
\<close>

theorem empty_listings:
  "(Report_find_userId s (u_userId caller) = [] \<longrightarrow>
      getMyReports s caller = Sent 200 (ApiResponse 200 [] ''User has not created any reports yet.''))
   \<and> (reports s' = [] \<longrightarrow> getAllReports s' = Threw (ApiError 404 ''No reports found.''))"
  by (simp add: getMyReports_def getAllReports_def sort_createdAt_desc_def)

theorem empty_listings_witness:
  "Report_find_userId city_store (u_userId bob) = []
   \<and> getMyReports city_store bob = Sent 200 (ApiResponse 200 [] ''User has not created any reports yet.'')
   \<and> reports empty_store = []
   \<and> getAllReports empty_store = Threw (ApiError 404 ''No reports found.'')"
  using empty_listings [of city_store bob empty_store]
  by (simp add: Report_find_userId_def city_store_def empty_store_def bob_def pothole_def streetlight_def)

text \<open>
  Claim C6. For every user and every store, the lists returned by the listing of own
  reports, the admin listing of all reports and the listing of own notifications are
  sorted newest-first by creation timestamp.

  Each listing answers with the documents of its query, none lost and none added, in an
  order in which no document is older than a later one. The admin listing does so
  whenever the store holds a report; it returns no list, and throws its 404, only for a
  store without reports.
\<close>

theorem listings_newest_first:
  "(\<exists>xs msg. getMyReports s caller = Sent 200 (ApiResponse 200 xs msg)
      \<and> mset (map pr_report xs) = mset (Report_find_userId s (u_userId caller))
      \<and> sorted_wrt (\<lambda>a b. r_createdAt (pr_report b) \<le> r_createdAt (pr_report a)) xs)
   \<and> (reports s = [] \<longrightarrow> getAllReports s = Threw (ApiError 404 ''No reports found.''))
   \<and> (reports s \<noteq> [] \<longrightarrow>
        (\<exists>xs. getAllReports s = Sent 200 (ApiResponse 200 xs ''All reports fetched successfully.'')
          \<and> mset (map pr_report xs) = mset (reports s)
          \<and> sorted_wrt (\<lambda>a b. r_createdAt (pr_report b) \<le> r_createdAt (pr_report a)) xs))
   \<and> (\<exists>xs msg. getMyNotifications s caller = Sent 200 (ApiResponse 200 xs msg)
      \<and> mset (map pn_notification xs) = mset (Notification_find_userId s (u_userId caller))
      \<and> sorted_wrt (\<lambda>a b. n_createdAt (pn_notification b) \<le> n_createdAt (pn_notification a)) xs)"
proof (intro conjI impI)
  let ?mine = "sort_createdAt_desc r_createdAt (Report_find_userId s (u_userId caller))"
  have "\<exists>xs msg. getMyReports s caller = Sent 200 (ApiResponse 200 xs msg)
      \<and> map pr_report xs = ?mine"
    by (cases "?mine = []") (simp_all add: getMyReports_def Let_def comp_def)
  then obtain xs msg where sent: "getMyReports s caller = Sent 200 (ApiResponse 200 xs msg)"
    and docs: "map pr_report xs = ?mine"
    by blast
  from docs have "mset (map pr_report xs) = mset (Report_find_userId s (u_userId caller))"
    by (simp add: mset_sort_createdAt_desc)
  moreover from docs have "sorted_wrt (\<lambda>a b. r_createdAt (pr_report b) \<le> r_createdAt (pr_report a)) xs"
    by (simp add: sorted_wrt_pr_report sorted_sort_createdAt_desc)
  ultimately show "\<exists>xs msg. getMyReports s caller = Sent 200 (ApiResponse 200 xs msg)
      \<and> mset (map pr_report xs) = mset (Report_find_userId s (u_userId caller))
      \<and> sorted_wrt (\<lambda>a b. r_createdAt (pr_report b) \<le> r_createdAt (pr_report a)) xs"
    using sent by blast
next
  assume "reports s = []"
  then show "getAllReports s = Threw (ApiError 404 ''No reports found.'')"
    by (simp add: getAllReports_def sort_createdAt_desc_def)
next
  let ?all = "sort_createdAt_desc r_createdAt (reports s)"
  assume "reports s \<noteq> []"
  then have "mset ?all \<noteq> {#}"
    by (simp add: mset_sort_createdAt_desc)
  then have "?all \<noteq> []"
    by auto
  then obtain xs where sent: "getAllReports s =
      Sent 200 (ApiResponse 200 xs ''All reports fetched successfully.'')"
    and docs: "map pr_report xs = ?all"
    by (simp add: getAllReports_def Let_def comp_def)
  from docs have "mset (map pr_report xs) = mset (reports s)"
    by (simp add: mset_sort_createdAt_desc)
  moreover from docs have "sorted_wrt (\<lambda>a b. r_createdAt (pr_report b) \<le> r_createdAt (pr_report a)) xs"
    by (simp add: sorted_wrt_pr_report sorted_sort_createdAt_desc)
  ultimately show "\<exists>xs. getAllReports s = Sent 200 (ApiResponse 200 xs ''All reports fetched successfully.'')
          \<and> mset (map pr_report xs) = mset (reports s)
          \<and> sorted_wrt (\<lambda>a b. r_createdAt (pr_report b) \<le> r_createdAt (pr_report a)) xs"
    using sent by blast
next
  let ?ns = "sort_createdAt_desc n_createdAt (Notification_find_userId s (u_userId caller))"
  have "\<exists>xs msg. getMyNotifications s caller = Sent 200 (ApiResponse 200 xs msg)
      \<and> map pn_notification xs = ?ns"
    by (cases "?ns = []") (simp_all add: getMyNotifications_def Let_def comp_def)
  then obtain xs msg where sent: "getMyNotifications s caller = Sent 200 (ApiResponse 200 xs msg)"
    and docs: "map pn_notification xs = ?ns"
    by blast
  from docs have "mset (map pn_notification xs) = mset (Notification_find_userId s (u_userId caller))"
    by (simp add: mset_sort_createdAt_desc)
  moreover from docs have "sorted_wrt (\<lambda>a b. n_createdAt (pn_notification b) \<le> n_createdAt (pn_notification a)) xs"
    by (simp add: sorted_wrt_pn_notification sorted_sort_createdAt_desc)
  ultimately show "\<exists>xs msg. getMyNotifications s caller = Sent 200 (ApiResponse 200 xs msg)
      \<and> mset (map pn_notification xs) = mset (Notification_find_userId s (u_userId caller))
      \<and> sorted_wrt (\<lambda>a b. n_createdAt (pn_notification b) \<le> n_createdAt (pn_notification a)) xs"
    using sent by blast
qed

theorem listings_newest_first_witness:
  "reports city_store \<noteq> []
   \<and> getAllReports city_store = Sent 200 (ApiResponse 200
       [\<lparr>pr_report = streetlight, pr_userId = Populated (select_user alice),
         pr_categoryId = Raw (JStr ''cat-9'')\<rparr>,
        \<lparr>pr_report = pothole, pr_userId = Populated (select_user alice),
         pr_categoryId = Populated roads\<rparr>]
       ''All reports fetched successfully.'')
   \<and> r_createdAt streetlight = 2000 \<and> r_createdAt pothole = 1000
   \<and> reports empty_store = []
   \<and> getAllReports empty_store = Threw (ApiError 404 ''No reports found.'')"
proof -
  have ne: "reports city_store \<noteq> []" and em: "reports empty_store = []"
    by (simp_all add: city_store_def empty_store_def)
  from ne listings_newest_first [of city_store alice]
  obtain xs where sent: "getAllReports city_store =
      Sent 200 (ApiResponse 200 xs ''All reports fetched successfully.'')"
    and docs: "mset (map pr_report xs) = mset (reports city_store)"
    and newest: "sorted_wrt (\<lambda>a b. r_createdAt (pr_report b) \<le> r_createdAt (pr_report a)) xs"
    by blast
  have "getAllReports city_store = Sent 200 (ApiResponse 200
       [\<lparr>pr_report = streetlight, pr_userId = Populated (select_user alice),
         pr_categoryId = Raw (JStr ''cat-9'')\<rparr>,
        \<lparr>pr_report = pothole, pr_userId = Populated (select_user alice),
         pr_categoryId = Populated roads\<rparr>]
       ''All reports fetched successfully.'')"
    using sent
    by (simp add: getAllReports_def Let_def city_store_def sort_createdAt_desc_def pothole_def
        streetlight_def js_Set_def js_Map_def User_find_in_def Category_find_in_def alice_def
        bob_def roads_def select_user_def)
  moreover from em listings_newest_first [of empty_store alice]
  have "getAllReports empty_store = Threw (ApiError 404 ''No reports found.'')"
    by blast
  ultimately show ?thesis
    using ne em by (simp add: pothole_def streetlight_def)
qed

section \<open>Report submission\<close>

text \<open>
  Claim C4. For every valid submission (title, description, category id and coordinates
  present, category resolvable, photo attached, uploads succeeding), exactly one Report
  and exactly one ReportHistory record with previous status null and new status pending
  are created, and the created report is returned with HTTP 201.

  The report collection grows by the created report alone and the history collection by
  one entry for it; the other collections stay as they are.
\<close>

theorem submitReport_valid_201:
  assumes fields: "truthy (title (sb_body req))" "truthy (description (sb_body req))"
      "truthy (categoryId (sb_body req))" "truthy (locationLat (sb_body req))"
      "truthy (locationLng (sb_body req))"
    and category: "Category_findOne s (categoryId (sb_body req)) = Some c"
    and files: "sb_files req = Some fs" "photo fs = Some (f # fs')"
    and photo_up: "uploadOnCloudinary e (path f) = Some photoUrl"
    and voice_up: "voiceUrl =
        (case voiceRecordingLocalPath fs of None \<Rightarrow> None
         | Some p \<Rightarrow> if p = [] then None else uploadOnCloudinary e p)"
      "\<forall>p. voiceRecordingLocalPath fs = Some p \<and> p \<noteq> [] \<longrightarrow> uploadOnCloudinary e p \<noteq> None"
    and created: "newReport =
        \<lparr>r_reportId = new_id e, r_userId = u_userId (sb_user req),
         r_categoryId = categoryId (sb_body req), r_title = title (sb_body req),
         r_description = description (sb_body req), r_photo_url = photoUrl,
         r_voice_recording_url = voiceUrl,
         r_location_lat = locationLat (sb_body req), r_location_lng = locationLng (sb_body req),
         r_status = JStr ''pending'', r_createdAt = now e\<rparr>"
  shows "\<exists>s'. submitReport e s req =
        (Sent 201 (ApiResponse 201 newReport ''Report submitted successfully.''), s')
      \<and> reports s' = reports s @ [newReport]
      \<and> histories s' = histories s @
          [\<lparr>h_reportId = r_reportId newReport, h_previousStatus = None, h_newStatus = ''pending'',
            h_changedByUserId = u_userId (sb_user req), h_remarks = ''Report submitted by user.'',
            h_createdAt = now e\<rparr>]
      \<and> notifications s' = notifications s \<and> categories s' = categories s \<and> users s' = users s"
proof -
  have voice: "(case voiceRecordingLocalPath fs of
                      None \<Rightarrow> Inr None
                    | Some p \<Rightarrow>
                        if p = [] then Inr None
                        else (case uploadOnCloudinary e p of
                                None \<Rightarrow> Inl (ApiError 500 ''Failed to upload voice recording to cloud service.'')
                              | Some url \<Rightarrow> Inr (Some url))) = Inr voiceUrl"
    using voice_up by (auto split: option.splits)
  show ?thesis
    using fields category files photo_up created
    by (simp add: submitReport_def Let_def voice Report_create_def ReportHistory_create_def
        generateAnalytics_def)
qed

theorem submitReport_valid_201_witness:
  "\<exists>s'. submitReport env_ok city_store pothole_req =
        (Sent 201 (ApiResponse 201
           \<lparr>r_reportId = ''id-7'', r_userId = ''u1'', r_categoryId = JStr ''cat-1'',
            r_title = JStr ''Pothole'', r_description = JStr ''Large pothole'',
            r_photo_url = ''https://cdn.example.org/tmp/photo.jpg'',
            r_voice_recording_url = Some ''https://cdn.example.org/tmp/voice.ogg'',
            r_location_lat = JNum 12.9, r_location_lng = JNum 77.6,
            r_status = JStr ''pending'', r_createdAt = 5000\<rparr>
           ''Report submitted successfully.''), s')
      \<and> length (reports s') = 3
      \<and> histories s' =
          [\<lparr>h_reportId = ''id-7'', h_previousStatus = None, h_newStatus = ''pending'',
            h_changedByUserId = ''u1'', h_remarks = ''Report submitted by user.'',
            h_createdAt = 5000\<rparr>]"
proof -
  let ?created = "\<lparr>r_reportId = ''id-7'', r_userId = ''u1'', r_categoryId = JStr ''cat-1'',
            r_title = JStr ''Pothole'', r_description = JStr ''Large pothole'',
            r_photo_url = ''https://cdn.example.org/tmp/photo.jpg'',
            r_voice_recording_url = Some ''https://cdn.example.org/tmp/voice.ogg'',
            r_location_lat = JNum 12.9, r_location_lng = JNum 77.6,
            r_status = JStr ''pending'', r_createdAt = 5000\<rparr>"
  have "\<exists>s'. submitReport env_ok city_store pothole_req =
        (Sent 201 (ApiResponse 201 ?created ''Report submitted successfully.''), s')
      \<and> reports s' = reports city_store @ [?created]
      \<and> histories s' = histories city_store @
          [\<lparr>h_reportId = r_reportId ?created, h_previousStatus = None, h_newStatus = ''pending'',
            h_changedByUserId = u_userId (sb_user pothole_req),
            h_remarks = ''Report submitted by user.'', h_createdAt = now env_ok\<rparr>]
      \<and> notifications s' = notifications city_store \<and> categories s' = categories city_store
      \<and> users s' = users city_store"
    by (rule submitReport_valid_201 [where c = roads
          and fs = "\<lparr>photo = Some [\<lparr>path = ''tmp/photo.jpg''\<rparr>],
                    voiceRecording = Some [\<lparr>path = ''tmp/voice.ogg''\<rparr>]\<rparr>"
          and f = "\<lparr>path = ''tmp/photo.jpg''\<rparr>" and fs' = "[]"
          and voiceUrl = "Some ''https://cdn.example.org/tmp/voice.ogg''"])
      (simp_all add: pothole_req_def env_ok_def city_store_def alice_def roads_def
        Category_findOne_def voiceRecordingLocalPath_def)
  then show ?thesis
    by (auto simp: city_store_def pothole_req_def env_ok_def alice_def)
qed

text \<open>
  Claim C9. For every submission request in which the latitude or the longitude equals 0,
  or any required field is a falsy value such as the empty string, the handler rejects
  with a 400 error and creates no Report: presence is tested by truthiness, not by
  definedness.

  The number 0 is falsy, so a report on the equator is refused although every field is
  there; the store is returned as it was.
\<close>

theorem submitReport_falsy_field_400:
  assumes "locationLat (sb_body req) = JNum 0 \<or> locationLng (sb_body req) = JNum 0
    \<or> \<not> truthy (title (sb_body req)) \<or> \<not> truthy (description (sb_body req))
    \<or> \<not> truthy (categoryId (sb_body req))
    \<or> \<not> truthy (locationLat (sb_body req)) \<or> \<not> truthy (locationLng (sb_body req))"
  shows "submitReport e s req =
    (Threw (ApiError 400 ''All required fields (title, description, categoryId, locationLat, locationLng) are needed for the report.''), s)"
proof -
  from assms have "\<not> truthy (title (sb_body req)) \<or> \<not> truthy (description (sb_body req))
    \<or> \<not> truthy (categoryId (sb_body req))
    \<or> \<not> truthy (locationLat (sb_body req)) \<or> \<not> truthy (locationLng (sb_body req))"
    by auto
  then show ?thesis
    by (simp add: submitReport_def Let_def)
qed

theorem submitReport_falsy_field_400_witness:
  "locationLat (sb_body equator_req) = JNum 0
   \<and> truthy (title (sb_body equator_req)) \<and> truthy (description (sb_body equator_req))
   \<and> truthy (categoryId (sb_body equator_req)) \<and> truthy (locationLng (sb_body equator_req))
   \<and> submitReport env_ok city_store equator_req =
    (Threw (ApiError 400 ''All required fields (title, description, categoryId, locationLat, locationLng) are needed for the report.''), city_store)"
proof -
  have z: "locationLat (sb_body equator_req) = JNum 0"
    by (simp add: equator_req_def)
  then have "submitReport env_ok city_store equator_req =
    (Threw (ApiError 400 ''All required fields (title, description, categoryId, locationLat, locationLng) are needed for the report.''), city_store)"
    by (intro submitReport_falsy_field_400) simp
  with z show ?thesis
    by (simp add: equator_req_def pothole_req_def)
qed

section \<open>Notifications\<close>

text \<open>
  The map of related reports answers for an id that is among the collected ids and is
  that of a stored report, with the projection of the last report stored under it.
\<close>

lemma filter_key_Report_find_reportId_in:
  "filter (\<lambda>r. JStr (r_reportId r) = k) (Report_find_reportId_in s ids) =
    (if k \<in> set ids then filter (\<lambda>r. JStr (r_reportId r) = k) (reports s) else [])"
  by (auto simp: Report_find_reportId_in_def filter_empty_conv intro: filter_cong)

lemma reportMap_get:
  "js_Map (map (\<lambda>report. (JStr (rs_reportId report), report))
      (map select_report (Report_find_reportId_in s ids))) k =
    (if k \<in> set ids \<and> filter (\<lambda>r. JStr (r_reportId r) = k) (reports s) \<noteq> []
     then Some (select_report (last (filter (\<lambda>r. JStr (r_reportId r) = k) (reports s))))
     else None)"
proof -
  have "js_Map (map (\<lambda>report. (JStr (rs_reportId report), report))
      (map select_report (Report_find_reportId_in s ids))) k =
    js_Map (map (\<lambda>r. (JStr (r_reportId r), select_report r)) (Report_find_reportId_in s ids)) k"
    by (simp add: comp_def select_report_def)
  then show ?thesis
    by (simp add: js_Map_keyed filter_key_Report_find_reportId_in)
qed

text \<open>
  What the listing puts in the report reference of each notification: the collected ids
  are the truthy ones, so a falsy reference is never looked up.
\<close>

lemma getMyNotifications_populated:
  "\<exists>xs msg. getMyNotifications s caller = Sent 200 (ApiResponse 200 xs msg)
     \<and> map pn_notification xs = sort_createdAt_desc n_createdAt (Notification_find_userId s (u_userId caller))
     \<and> (\<forall>p \<in> set xs.
          pn_reportId p =
            (if truthy (n_reportId (pn_notification p))
                \<and> filter (\<lambda>r. JStr (r_reportId r) = n_reportId (pn_notification p)) (reports s) \<noteq> []
             then Populated (select_report
                    (last (filter (\<lambda>r. JStr (r_reportId r) = n_reportId (pn_notification p)) (reports s))))
             else Raw (n_reportId (pn_notification p))))"
proof (cases "sort_createdAt_desc n_createdAt (Notification_find_userId s (u_userId caller)) = []")
  case True
  then show ?thesis by (simp add: getMyNotifications_def)
next
  case False
  let ?ns = "sort_createdAt_desc n_createdAt (Notification_find_userId s (u_userId caller))"
  let ?ids = "js_Set (filter truthy (map n_reportId ?ns))"
  let ?reportMap = "js_Map (map (\<lambda>report. (JStr (rs_reportId report), report))
      (map select_report (Report_find_reportId_in s ?ids)))"
  let ?populate = "\<lambda>notification. \<lparr>pn_notification = notification,
      pn_reportId = (case ?reportMap (n_reportId notification) of
          Some report \<Rightarrow> Populated report
        | None \<Rightarrow> Raw (n_reportId notification))\<rparr>"
  have sent: "getMyNotifications s caller =
      Sent 200 (ApiResponse 200 (map ?populate ?ns) ''Notifications fetched successfully.'')"
    using False by (simp add: getMyNotifications_def Let_def)
  have docs: "map pn_notification (map ?populate ?ns) = ?ns"
    by (simp add: comp_def)
  have joined: "pn_reportId p =
            (if truthy (n_reportId (pn_notification p))
                \<and> filter (\<lambda>r. JStr (r_reportId r) = n_reportId (pn_notification p)) (reports s) \<noteq> []
             then Populated (select_report
                    (last (filter (\<lambda>r. JStr (r_reportId r) = n_reportId (pn_notification p)) (reports s))))
             else Raw (n_reportId (pn_notification p)))"
    if "p \<in> set (map ?populate ?ns)" for p
  proof -
    from that obtain n where n: "n \<in> set ?ns" and p: "p = ?populate n"
      by auto
    from n have "n_reportId n \<in> set ?ids \<longleftrightarrow> truthy (n_reportId n)"
      by (auto simp: set_js_Set)
    then show ?thesis
      unfolding p by (simp add: reportMap_get del: map_map)
  qed
  from sent docs joined show ?thesis by blast
qed

text \<open>
  Claim C7. In the notification listing, for every notification whose referenced report
  id resolves in the store, the report-id field is replaced by the projection (report id,
  title, status) of that report; for every notification whose referenced report id does
  not resolve, the raw id is left in place and no error is raised.

  Report ids are generated by the application and are not empty. In such a store the
  listing always answers 200, and each listed notification carries, in place of its
  reference, the object made of the id, the title and the status of the report stored
  under that reference, the last one should several share the id, or its raw reference
  when no report is stored under it.
\<close>

theorem getMyNotifications_join:
  assumes "\<forall>r \<in> set (reports s). r_reportId r \<noteq> []"
  shows "\<exists>xs msg. getMyNotifications s caller = Sent 200 (ApiResponse 200 xs msg)
     \<and> map pn_notification xs = sort_createdAt_desc n_createdAt (Notification_find_userId s (u_userId caller))
     \<and> (\<forall>p \<in> set xs.
          (filter (\<lambda>r. JStr (r_reportId r) = n_reportId (pn_notification p)) (reports s) \<noteq> [] \<longrightarrow>
             (\<exists>r. r = last (filter (\<lambda>r. JStr (r_reportId r) = n_reportId (pn_notification p)) (reports s))
               \<and> r \<in> set (reports s) \<and> JStr (r_reportId r) = n_reportId (pn_notification p)
               \<and> pn_reportId p = Populated
                    \<lparr>rs_reportId = r_reportId r, rs_title = r_title r, rs_status = r_status r\<rparr>))
        \<and> (filter (\<lambda>r. JStr (r_reportId r) = n_reportId (pn_notification p)) (reports s) = [] \<longrightarrow>
             pn_reportId p = Raw (n_reportId (pn_notification p))))"
proof -
  have referenced: "truthy k" if "filter (\<lambda>r. JStr (r_reportId r) = k) (reports s) \<noteq> []" for k
  proof -
    from that obtain r where "r \<in> set (reports s)" and "JStr (r_reportId r) = k"
      by (auto simp: filter_empty_conv)
    with assms show ?thesis by auto
  qed
  have stored: "last (filter (\<lambda>r. JStr (r_reportId r) = k) (reports s)) \<in> set (reports s)
      \<and> JStr (r_reportId (last (filter (\<lambda>r. JStr (r_reportId r) = k) (reports s)))) = k"
    if "filter (\<lambda>r. JStr (r_reportId r) = k) (reports s) \<noteq> []" for k
  proof -
    from that have "last (filter (\<lambda>r. JStr (r_reportId r) = k) (reports s))
        \<in> set (filter (\<lambda>r. JStr (r_reportId r) = k) (reports s))"
      by (rule last_in_set)
    then show ?thesis by simp
  qed
  from getMyNotifications_populated [of s caller]
  obtain xs msg where sent: "getMyNotifications s caller = Sent 200 (ApiResponse 200 xs msg)"
    and docs: "map pn_notification xs =
      sort_createdAt_desc n_createdAt (Notification_find_userId s (u_userId caller))"
    and populated: "\<forall>p \<in> set xs.
          pn_reportId p =
            (if truthy (n_reportId (pn_notification p))
                \<and> filter (\<lambda>r. JStr (r_reportId r) = n_reportId (pn_notification p)) (reports s) \<noteq> []
             then Populated (select_report
                    (last (filter (\<lambda>r. JStr (r_reportId r) = n_reportId (pn_notification p)) (reports s))))
             else Raw (n_reportId (pn_notification p)))"
    by (elim exE conjE) (rule that)
  have "\<forall>p \<in> set xs.
          (filter (\<lambda>r. JStr (r_reportId r) = n_reportId (pn_notification p)) (reports s) \<noteq> [] \<longrightarrow>
             (\<exists>r. r = last (filter (\<lambda>r. JStr (r_reportId r) = n_reportId (pn_notification p)) (reports s))
               \<and> r \<in> set (reports s) \<and> JStr (r_reportId r) = n_reportId (pn_notification p)
               \<and> pn_reportId p = Populated
                    \<lparr>rs_reportId = r_reportId r, rs_title = r_title r, rs_status = r_status r\<rparr>))
        \<and> (filter (\<lambda>r. JStr (r_reportId r) = n_reportId (pn_notification p)) (reports s) = [] \<longrightarrow>
             pn_reportId p = Raw (n_reportId (pn_notification p)))"
  proof
    fix p
    assume "p \<in> set xs"
    with populated have "pn_reportId p =
            (if truthy (n_reportId (pn_notification p))
                \<and> filter (\<lambda>r. JStr (r_reportId r) = n_reportId (pn_notification p)) (reports s) \<noteq> []
             then Populated (select_report
                    (last (filter (\<lambda>r. JStr (r_reportId r) = n_reportId (pn_notification p)) (reports s))))
             else Raw (n_reportId (pn_notification p)))"
      by blast
    then show "(filter (\<lambda>r. JStr (r_reportId r) = n_reportId (pn_notification p)) (reports s) \<noteq> [] \<longrightarrow>
             (\<exists>r. r = last (filter (\<lambda>r. JStr (r_reportId r) = n_reportId (pn_notification p)) (reports s))
               \<and> r \<in> set (reports s) \<and> JStr (r_reportId r) = n_reportId (pn_notification p)
               \<and> pn_reportId p = Populated
                    \<lparr>rs_reportId = r_reportId r, rs_title = r_title r, rs_status = r_status r\<rparr>))
        \<and> (filter (\<lambda>r. JStr (r_reportId r) = n_reportId (pn_notification p)) (reports s) = [] \<longrightarrow>
             pn_reportId p = Raw (n_reportId (pn_notification p)))"
      using referenced [of "n_reportId (pn_notification p)"] stored [of "n_reportId (pn_notification p)"]
      by (auto simp: select_report_def)
  qed
  with sent docs show ?thesis by blast
qed

theorem getMyNotifications_join_witness:
  "map r_reportId (reports city_store) = [''r1'', ''r2'']
   \<and> getMyNotifications city_store alice =
     Sent 200 (ApiResponse 200
       [\<lparr>pn_notification = note_gone, pn_reportId = Raw (JStr ''r9'')\<rparr>,
        \<lparr>pn_notification = note_r1, pn_reportId = Populated
           \<lparr>rs_reportId = ''r1'', rs_title = JStr ''Pothole'', rs_status = JStr ''pending''\<rparr>\<rparr>]
       ''Notifications fetched successfully.'')"
proof -
  have ids: "\<forall>r \<in> set (reports city_store). r_reportId r \<noteq> []"
    by (simp add: city_store_def pothole_def streetlight_def)
  have ns: "sort_createdAt_desc n_createdAt (Notification_find_userId city_store (u_userId alice))
      = [note_gone, note_r1]"
    by (simp add: sort_createdAt_desc_def Notification_find_userId_def city_store_def alice_def
        note_gone_def note_r1_def note_bob_def)
  have rs: "filter (\<lambda>r. r_reportId r = ''r9'') (reports city_store) = []"
    "filter (\<lambda>r. r_reportId r = ''r1'') (reports city_store) = [pothole]"
    by (simp_all add: city_store_def pothole_def streetlight_def)
  from getMyNotifications_join [OF ids, of alice]
  obtain xs msg where sent: "getMyNotifications city_store alice = Sent 200 (ApiResponse 200 xs msg)"
    and docs: "map pn_notification xs = [note_gone, note_r1]"
    and joined: "\<forall>p \<in> set xs.
          (filter (\<lambda>r. JStr (r_reportId r) = n_reportId (pn_notification p)) (reports city_store) \<noteq> [] \<longrightarrow>
             (\<exists>r. r = last (filter (\<lambda>r. JStr (r_reportId r) = n_reportId (pn_notification p)) (reports city_store))
               \<and> r \<in> set (reports city_store) \<and> JStr (r_reportId r) = n_reportId (pn_notification p)
               \<and> pn_reportId p = Populated
                    \<lparr>rs_reportId = r_reportId r, rs_title = r_title r, rs_status = r_status r\<rparr>))
        \<and> (filter (\<lambda>r. JStr (r_reportId r) = n_reportId (pn_notification p)) (reports city_store) = [] \<longrightarrow>
             pn_reportId p = Raw (n_reportId (pn_notification p)))"
    unfolding ns by (elim exE conjE) (rule that)
  from docs obtain p q where xs: "xs = [p, q]" and p: "pn_notification p = note_gone"
    and q: "pn_notification q = note_r1"
    by (auto simp: map_eq_Cons_conv)
  from joined have "pn_reportId p = Raw (JStr ''r9'')"
    "pn_reportId q = Populated
       \<lparr>rs_reportId = r_reportId pothole, rs_title = r_title pothole, rs_status = r_status pothole\<rparr>"
    unfolding xs by (simp_all add: p q note_gone_def note_r1_def rs)
  with p q have "p = \<lparr>pn_notification = note_gone, pn_reportId = Raw (JStr ''r9'')\<rparr>"
    "q = \<lparr>pn_notification = note_r1, pn_reportId = Populated
           \<lparr>rs_reportId = ''r1'', rs_title = JStr ''Pothole'', rs_status = JStr ''pending''\<rparr>\<rparr>"
    by (simp_all add: pothole_def)
  moreover have "msg = ''Notifications fetched successfully.''"
    using sent by (simp add: getMyNotifications_def Let_def ns)
  moreover have "map r_reportId (reports city_store) = [''r1'', ''r2'']"
    by (simp add: city_store_def pothole_def streetlight_def)
  ultimately show ?thesis using sent xs by simp
qed

text \<open>
  Claim C5. For every request to mark a notification as read: if a notification with the
  given id exists and is owned by the caller, only its read-status field is changed, to
  read, and the updated notification is returned with HTTP 200; if no such owned
  notification exists, being absent or owned by another user, the operation returns 404
  and the store is left unchanged.

  In the first case one place of the notification collection changes, that of a
  notification with the id and the owner, and what is written there and returned is the
  former document with the status read.
\<close>

theorem markNotificationAsRead_owned_or_404:
  "((\<exists>n \<in> set (notifications s).
        n_notificationId n = mr_notificationId req \<and> n_userId n = u_userId (mr_user req)) \<longrightarrow>
      (\<exists>i < length (notifications s).
         n_notificationId (notifications s ! i) = mr_notificationId req
         \<and> n_userId (notifications s ! i) = u_userId (mr_user req)
         \<and> markNotificationAsRead s req =
             (Sent 200 (ApiResponse 200 ((notifications s ! i)\<lparr>n_status := ''read''\<rparr>)
                ''Notification marked as read.''),
              s\<lparr>notifications := (notifications s)[i := (notifications s ! i)\<lparr>n_status := ''read''\<rparr>]\<rparr>)))
   \<and> (\<not> (\<exists>n \<in> set (notifications s).
        n_notificationId n = mr_notificationId req \<and> n_userId n = u_userId (mr_user req)) \<longrightarrow>
      markNotificationAsRead s req =
        (Threw (ApiError 404 ''Notification not found or user not authorized.''), s))"
proof (intro conjI impI)
  let ?matches = "\<lambda>n. n_notificationId n = mr_notificationId req \<and> n_userId n = u_userId (mr_user req)"
  assume "\<exists>n \<in> set (notifications s). ?matches n"
  then obtain n where found: "find ?matches (notifications s) = Some n"
    by (cases "find ?matches (notifications s)") (auto simp: find_None_iff)
  then have n: "?matches n"
    by (auto simp: find_Some_iff)
  from replace_first_find [OF found, of "n\<lparr>n_status := ''read''\<rparr>"]
  obtain i where i: "i < length (notifications s)" "notifications s ! i = n"
      "replace_first ?matches (n\<lparr>n_status := ''read''\<rparr>) (notifications s)
        = (notifications s)[i := n\<lparr>n_status := ''read''\<rparr>]"
    by blast
  have "markNotificationAsRead s req =
      (Sent 200 (ApiResponse 200 (n\<lparr>n_status := ''read''\<rparr>) ''Notification marked as read.''),
       s\<lparr>notifications := (notifications s)[i := n\<lparr>n_status := ''read''\<rparr>]\<rparr>)"
    using found i(3)
    by (simp add: markNotificationAsRead_def Notification_findOneAndUpdate_def Let_def)
  with i(1,2) n show "\<exists>i < length (notifications s).
         n_notificationId (notifications s ! i) = mr_notificationId req
         \<and> n_userId (notifications s ! i) = u_userId (mr_user req)
         \<and> markNotificationAsRead s req =
             (Sent 200 (ApiResponse 200 ((notifications s ! i)\<lparr>n_status := ''read''\<rparr>)
                ''Notification marked as read.''),
              s\<lparr>notifications := (notifications s)[i := (notifications s ! i)\<lparr>n_status := ''read''\<rparr>]\<rparr>)"
    by auto
next
  let ?matches = "\<lambda>n. n_notificationId n = mr_notificationId req \<and> n_userId n = u_userId (mr_user req)"
  assume "\<not> (\<exists>n \<in> set (notifications s). ?matches n)"
  then have "find ?matches (notifications s) = None"
    by (simp add: find_None_iff)
  then show "markNotificationAsRead s req =
        (Threw (ApiError 404 ''Notification not found or user not authorized.''), s)"
    by (simp add: markNotificationAsRead_def Notification_findOneAndUpdate_def Let_def)
qed

theorem markNotificationAsRead_owned_or_404_witness:
  "markNotificationAsRead city_store \<lparr>mr_notificationId = ''n1'', mr_user = alice\<rparr> =
     (Sent 200 (ApiResponse 200 (note_r1\<lparr>n_status := ''read''\<rparr>) ''Notification marked as read.''),
      city_store\<lparr>notifications := [note_r1\<lparr>n_status := ''read''\<rparr>, note_gone, note_bob]\<rparr>)
   \<and> markNotificationAsRead city_store \<lparr>mr_notificationId = ''n1'', mr_user = bob\<rparr> =
     (Threw (ApiError 404 ''Notification not found or user not authorized.''), city_store)"
proof -
  have own: "\<exists>n \<in> set (notifications city_store).
      n_notificationId n = mr_notificationId \<lparr>mr_notificationId = ''n1'', mr_user = alice\<rparr>
      \<and> n_userId n = u_userId (mr_user \<lparr>mr_notificationId = ''n1'', mr_user = alice\<rparr>)"
    by (simp add: city_store_def note_r1_def alice_def)
  have other: "\<not> (\<exists>n \<in> set (notifications city_store).
      n_notificationId n = mr_notificationId \<lparr>mr_notificationId = ''n1'', mr_user = bob\<rparr>
      \<and> n_userId n = u_userId (mr_user \<lparr>mr_notificationId = ''n1'', mr_user = bob\<rparr>))"
    by (simp add: city_store_def note_r1_def note_gone_def note_bob_def bob_def)
  from own markNotificationAsRead_owned_or_404 [of city_store "\<lparr>mr_notificationId = ''n1'', mr_user = alice\<rparr>"]
  obtain i where i: "i < length (notifications city_store)"
    "n_notificationId (notifications city_store ! i) = ''n1''"
    and r: "markNotificationAsRead city_store \<lparr>mr_notificationId = ''n1'', mr_user = alice\<rparr> =
             (Sent 200 (ApiResponse 200 ((notifications city_store ! i)\<lparr>n_status := ''read''\<rparr>)
                ''Notification marked as read.''),
              city_store\<lparr>notifications := (notifications city_store)[i := (notifications city_store ! i)\<lparr>n_status := ''read''\<rparr>]\<rparr>)"
    by auto
  from i have "i = 0"
    by (auto simp: city_store_def note_r1_def note_gone_def note_bob_def less_Suc_eq numeral_3_eq_3)
  with r have "markNotificationAsRead city_store \<lparr>mr_notificationId = ''n1'', mr_user = alice\<rparr> =
     (Sent 200 (ApiResponse 200 (note_r1\<lparr>n_status := ''read''\<rparr>) ''Notification marked as read.''),
      city_store\<lparr>notifications := [note_r1\<lparr>n_status := ''read''\<rparr>, note_gone, note_bob]\<rparr>)"
    by (simp add: city_store_def)
  moreover from other markNotificationAsRead_owned_or_404 [of city_store "\<lparr>mr_notificationId = ''n1'', mr_user = bob\<rparr>"]
  have "markNotificationAsRead city_store \<lparr>mr_notificationId = ''n1'', mr_user = bob\<rparr> =
     (Threw (ApiError 404 ''Notification not found or user not authorized.''), city_store)"
    by blast
  ultimately show ?thesis by simp
qed

section \<open>Scheduled notification dispatch\<close>

text \<open>What one run of the callback does, by the outcome of the dispatch.\<close>

lemma scheduled_callback_eq:
  "scheduled_callback send (w, out) =
    (case send w of
       (None, w') \<Rightarrow> (None, w', out @ [Log ''Running pending report notification task...'',
            Log ''Notification task completed successfully.''])
     | (Some err, w') \<Rightarrow> (None, w', out @ [Log ''Running pending report notification task...'',
            Error ''Error during notification task:'' err]))"
  by (simp add: scheduled_callback_def seq_def try_catch_def console_log_def console_error_def
      await_send_def split: prod.splits option.splits)

lemma scheduled_callback_fst: "fst (scheduled_callback send st) = None"
  by (cases st) (simp add: scheduled_callback_eq split: prod.splits option.splits)

lemma scheduled_callback_runs:
  "length (filter (\<lambda>l. l = Log ''Running pending report notification task...'')
      (snd (snd (scheduled_callback send st)))) =
   Suc (length (filter (\<lambda>l. l = Log ''Running pending report notification task...'') (snd st)))"
  by (cases st) (simp add: scheduled_callback_eq split: prod.splits option.splits)

lemma run_ticks_scheduled_callback:
  "fst (run_ticks n (scheduled_callback send) st) = None
   \<and> length (filter (\<lambda>l. l = Log ''Running pending report notification task...'')
        (snd (snd (run_ticks n (scheduled_callback send) st)))) =
     n + length (filter (\<lambda>l. l = Log ''Running pending report notification task...'') (snd st))"
proof (induction n arbitrary: st)
  case 0
  then show ?case by simp
next
  case (Suc n)
  obtain st' where st': "scheduled_callback send st = (None, st')"
    using scheduled_callback_fst [of send st] by (cases "scheduled_callback send st") auto
  then have "length (filter (\<lambda>l. l = Log ''Running pending report notification task...'') (snd st')) =
      Suc (length (filter (\<lambda>l. l = Log ''Running pending report notification task...'') (snd st)))"
    using scheduled_callback_runs [of send st] by simp
  with Suc.IH [of st'] st' show ?case by simp
qed

text \<open>
  Claim C8. Every error raised during one run of the scheduled dispatch of pending
  notifications is caught and logged inside the scheduled callback and never propagates
  out of it, so a failed run does not prevent subsequent scheduled runs.

  Whatever the dispatch does, the callback completes; when the dispatch rejects, the
  console gets the error line with that error; and \<open>n\<close> ticks of the timer give \<open>n\<close>
  runs, each announced on the console.
\<close>

theorem scheduled_callback_catches_every_error:
  "fst (scheduled_callback send (w, out)) = None
   \<and> (\<forall>err w'. send w = (Some err, w') \<longrightarrow>
        scheduled_callback send (w, out) =
          (None, w', out @ [Log ''Running pending report notification task...'',
                            Error ''Error during notification task:'' err]))
   \<and> fst (run_ticks n (scheduled_callback send) (w, out)) = None
   \<and> length (filter (\<lambda>l. l = Log ''Running pending report notification task...'')
        (snd (snd (run_ticks n (scheduled_callback send) (w, out))))) =
      n + length (filter (\<lambda>l. l = Log ''Running pending report notification task...'') out)"
proof (intro conjI allI impI)
  show "fst (scheduled_callback send (w, out)) = None"
    by (rule scheduled_callback_fst)
next
  fix err w'
  assume "send w = (Some err, w')"
  then show "scheduled_callback send (w, out) =
      (None, w', out @ [Log ''Running pending report notification task...'',
                        Error ''Error during notification task:'' err])"
    by (simp add: scheduled_callback_eq)
next
  show "fst (run_ticks n (scheduled_callback send) (w, out)) = None"
    using run_ticks_scheduled_callback [of n send "(w, out)"] by simp
next
  show "length (filter (\<lambda>l. l = Log ''Running pending report notification task...'')
        (snd (snd (run_ticks n (scheduled_callback send) (w, out))))) =
      n + length (filter (\<lambda>l. l = Log ''Running pending report notification task...'') out)"
    using run_ticks_scheduled_callback [of n send "(w, out)"] by simp
qed

theorem scheduled_callback_catches_every_error_witness:
  "always_failing 0 = (Some (Rejected ''SMTP down''), 1)
   \<and> scheduled_callback always_failing (0, []) =
       (None, 1, [Log ''Running pending report notification task...'',
                  Error ''Error during notification task:'' (Rejected ''SMTP down'')])
   \<and> fst (run_ticks 3 (scheduled_callback always_failing) (0, [])) = None
   \<and> length (filter (\<lambda>l. l = Log ''Running pending report notification task...'')
        (snd (snd (run_ticks 3 (scheduled_callback always_failing) (0, []))))) = 3"
  using scheduled_callback_catches_every_error [of always_failing 0 "[]" 3]
  by (simp add: always_failing_def)

end
